theory Spec2Isabelle
  imports Main
begin

section \<open>JavaScript values handled by \<^verbatim>\<open>src/front-end/src/utils/api.js\<close>\<close>

text \<open>
  The module moves plain data between the user interface and the server: request
  payloads, response envelopes, query parameters, identifiers. A value is modelled as a
  tree. An object is the list of its own enumerable string-keyed properties in the order
  in which they were created (keys distinct); no value of the model is callable.
  Of a number the module observes its text and its truthiness only, so a number is given
  by the text that \<^verbatim>\<open>Number.prototype.toString\<close> (radix 10) produces for it: \<^verbatim>\<open>7\<close>, \<^verbatim>\<open>-305\<close>,
  \<^verbatim>\<open>0.5\<close>, \<^verbatim>\<open>1e+21\<close>, \<^verbatim>\<open>NaN\<close>. Both zeros have the text \<^verbatim>\<open>0\<close>; a text that no number
  has stands for no value.
\<close>

datatype jsval =
    Undef
  | Null
  | JBool bool
  | JNum string
  | JStr string
  | JArr "jsval list"
  | JObj "(string \<times> jsval) list"

text \<open>
  An exception object: \<open>name\<close> is what the \<^verbatim>\<open>catch\<close> block of \<^verbatim>\<open>fetchJson\<close> compares
  with \<^verbatim>\<open>"AbortError"\<close>, \<open>stack\<close> is what it hands to \<^verbatim>\<open>console.error\<close>.
\<close>

record js_error =
  name :: string
  message :: string
  stack :: string

text \<open>
  The \<^verbatim>\<open>TypeError\<close> the language raises (reading a property of \<^verbatim>\<open>null\<close> or
  \<^verbatim>\<open>undefined\<close>, calling what is not a function, an invalid URL). The stack text of a
  real engine also lists the frames; the model keeps its first line.
\<close>

definition TypeError :: "string \<Rightarrow> js_error" where
  "TypeError m = \<lparr>name = ''TypeError'', message = m, stack = ''TypeError: '' @ m\<rparr>"

text \<open>A promise settles: it resolves with a value, or it rejects with a thrown exception
  or with the reason given to \<^verbatim>\<open>Promise.reject\<close>.\<close>

datatype rejection = Thrown js_error | Reason jsval

datatype outcome = Resolved jsval | Rejected rejection

subsection \<open>Truthiness and property reads\<close>

fun truthy :: "jsval \<Rightarrow> bool" where
  "truthy Undef = False"
| "truthy Null = False"
| "truthy (JBool b) = b"
| "truthy (JNum t) = (t \<noteq> ''0'' \<and> t \<noteq> ''NaN'')"
| "truthy (JStr s) = (s \<noteq> [])"
| "truthy (JArr xs) = True"
| "truthy (JObj ps) = True"

text \<open>
  \<^verbatim>\<open>payload.error\<close> and \<^verbatim>\<open>payload.data\<close>: reading a property of \<^verbatim>\<open>null\<close> or \<^verbatim>\<open>undefined\<close>
  throws; an object yields its own property or \<^verbatim>\<open>undefined\<close>; the other values have no
  property of these two names. (The function is used for the names \<^verbatim>\<open>error\<close> and \<^verbatim>\<open>data\<close>
  only, which no prototype defines.)
\<close>

fun get_property :: "jsval \<Rightarrow> string \<Rightarrow> js_error + jsval" where
  "get_property Undef k = Inl (TypeError (''Cannot read properties of undefined (reading '' @ k @ '')''))"
| "get_property Null k = Inl (TypeError (''Cannot read properties of null (reading '' @ k @ '')''))"
| "get_property (JObj ps) k = Inr (case map_of ps k of None \<Rightarrow> Undef | Some v \<Rightarrow> v)"
| "get_property (JBool b) k = Inr Undef"
| "get_property (JNum n) k = Inr Undef"
| "get_property (JStr s) k = Inr Undef"
| "get_property (JArr xs) k = Inr Undef"

subsection \<open>Text of a value\<close>

text \<open>
  The abstract operation \<^verbatim>\<open>ToString\<close>, which a template literal applies to an
  interpolated value, and \<^verbatim>\<open>Array.prototype.join\<close> with the separator \<^verbatim>\<open>","\<close>, which
  it uses for an array (\<^verbatim>\<open>null\<close> and \<^verbatim>\<open>undefined\<close> elements give the empty text). An
  object with an own property \<^verbatim>\<open>toString\<close> has a non-callable one there, and
  \<^verbatim>\<open>Object.prototype.valueOf\<close> gives no primitive, so its conversion throws.
\<close>

fun ToString :: "jsval \<Rightarrow> js_error + string"
  and Array_join :: "jsval list \<Rightarrow> js_error + string" where
  "ToString Undef = Inr ''undefined''"
| "ToString Null = Inr ''null''"
| "ToString (JBool b) = Inr (if b then ''true'' else ''false'')"
| "ToString (JNum t) = Inr t"
| "ToString (JStr s) = Inr s"
| "ToString (JArr xs) = Array_join xs"
| "ToString (JObj ps) =
     (if ''toString'' \<in> fst ` set ps then Inl (TypeError ''Cannot convert object to primitive value'')
      else Inr ''[object Object]'')"
| "Array_join [] = Inr []"
| "Array_join (x # xs) =
     (case (if x = Undef \<or> x = Null then Inr [] else ToString x) of
        Inl e \<Rightarrow> Inl e
      | Inr s \<Rightarrow>
          (if xs = [] then Inr s
           else (case Array_join xs of Inl e \<Rightarrow> Inl e | Inr t \<Rightarrow> Inr (s @ '','' @ t))))"

text \<open>
  The method call \<^verbatim>\<open>value.toString()\<close>: on \<^verbatim>\<open>null\<close> and \<^verbatim>\<open>undefined\<close> the property read
  throws; on every other value of the model the inherited method gives the text of
  \<open>ToString\<close> (and an own, non-callable \<^verbatim>\<open>toString\<close> throws).
\<close>

definition toString :: "jsval \<Rightarrow> js_error + string" where
  "toString v =
     (if v = Undef then Inl (TypeError ''Cannot read properties of undefined (reading toString)'')
      else if v = Null then Inl (TypeError ''Cannot read properties of null (reading toString)'')
      else (case v of
              JObj ps \<Rightarrow>
                (if ''toString'' \<in> fst ` set ps then Inl (TypeError ''value.toString is not a function'')
                 else ToString v)
            | _ \<Rightarrow> ToString v))"

subsection \<open>\<^verbatim>\<open>Object.entries\<close>\<close>

text \<open>
  A key is an array index when it is the canonical decimal numeral of an integer from
  \<open>0\<close> to \<open>2^32 - 2\<close>. \<^verbatim>\<open>Object.entries\<close> lists the own properties with the array-index
  keys first, in ascending numeric order, and then the other keys in creation order.
\<close>

definition is_digit :: "char \<Rightarrow> bool" where
  "is_digit c = (c \<in> set ''0123456789'')"

definition decimal_value :: "string \<Rightarrow> nat" where
  "decimal_value s = foldl (\<lambda>n c. 10 * n + (of_char c - 48)) 0 s"

definition array_index :: "string \<Rightarrow> nat option" where
  "array_index k =
     (if k \<noteq> [] \<and> list_all is_digit k \<and> (k = ''0'' \<or> hd k \<noteq> CHR ''0'') \<and> length k \<le> 10
         \<and> decimal_value k < 4294967295
      then Some (decimal_value k) else None)"

definition Object_entries :: "(string \<times> jsval) list \<Rightarrow> (string \<times> jsval) list" where
  "Object_entries ps =
     sort_key (\<lambda>(k, v). the (array_index k)) (filter (\<lambda>(k, v). array_index k \<noteq> None) ps)
     @ filter (\<lambda>(k, v). array_index k = None) ps"

section \<open>The runtime of the module\<close>

text \<open>
  \<^verbatim>\<open>new URL(s)\<close> followed by calls of \<^verbatim>\<open>searchParams.append\<close>: the text handed to the
  constructor and the name-value pairs appended since, in order (\<^verbatim>\<open>append\<close> adds the pair
  at the end of the list of the URL's query parameters).
\<close>

datatype URL = URL string "(string \<times> string) list"

text \<open>The first argument of \<^verbatim>\<open>fetch\<close>: a string (as \<^verbatim>\<open>createReservation\<close> passes) or a
  URL object (as \<^verbatim>\<open>listReservations\<close> passes).\<close>

datatype resource = Href string | UrlObject URL

text \<open>The second argument of \<^verbatim>\<open>fetch\<close>; a field the object literal leaves out is \<open>None\<close>.
  A signal is identified by a number.\<close>

record options =
  req_method :: "string option"
  req_headers :: "(string \<times> string) list"
  req_body :: "string option"
  req_signal :: "nat option"

text \<open>What \<^verbatim>\<open>fetch\<close> gives: it rejects (a network failure, an abort), or it resolves
  with a response, of which the module reads \<^verbatim>\<open>status\<close> and calls \<^verbatim>\<open>json()\<close>; \<open>json\<close> is
  what that call settles with when it is made (\<open>Inl\<close>: it rejects).\<close>

record response =
  status :: nat
  json :: "js_error + jsval"

datatype fetch_result = FetchRejects js_error | FetchResolves response

text \<open>
  What the module takes from its environment: the environment variable, \<^verbatim>\<open>fetch\<close>,
  whether the \<^verbatim>\<open>URL\<close> constructor accepts a text (it throws a \<^verbatim>\<open>TypeError\<close> otherwise),
  \<^verbatim>\<open>JSON.stringify\<close>, and the default export of the module
  \<^verbatim>\<open>./format-reservation-date\<close>, which is not part of the sources at hand: a function that
  returns a value or throws.
\<close>

record runtime =
  REACT_APP_API_BASE_URL :: "string option"
  fetch :: "resource \<Rightarrow> options \<Rightarrow> fetch_result"
  URL_accepts :: "string \<Rightarrow> bool"
  JSON_stringify :: "jsval \<Rightarrow> string"
  format_reservation_date_default :: "jsval \<Rightarrow> js_error + jsval"

text \<open>What a call does that its caller can observe besides its result, in order: the
  requests it issues, the bodies it parses, the lines it logs.\<close>

datatype event = Fetch resource options | ReadJson | ConsoleError string

subsection \<open>Lines 5 to 15: imports and constants\<close>

text \<open>
  \<^verbatim>\<open>import formatReservationDate from "./format-reservation-date";\<close>
  \<^verbatim>\<open>import formatReservationTime from "./format-reservation-date";\<close>
  Both names are bound to the default export of the same module.
\<close>

definition formatReservationDate :: "runtime \<Rightarrow> jsval \<Rightarrow> js_error + jsval" where
  "formatReservationDate rt = format_reservation_date_default rt"

definition formatReservationTime :: "runtime \<Rightarrow> jsval \<Rightarrow> js_error + jsval" where
  "formatReservationTime rt = format_reservation_date_default rt"

text \<open>\<^verbatim>\<open>process.env.REACT_APP_API_BASE_URL || "http://localhost:5001"\<close>: an unset variable
  and the empty text are falsy.\<close>

definition API_BASE_URL :: "runtime \<Rightarrow> string" where
  "API_BASE_URL rt =
     (case REACT_APP_API_BASE_URL rt of
        None \<Rightarrow> ''http://localhost:5001''
      | Some s \<Rightarrow> if s = [] then ''http://localhost:5001'' else s)"

definition headers :: "(string \<times> string) list" where
  "headers = [(''Content-Type'', ''application/json'')]"

definition new_URL :: "runtime \<Rightarrow> string \<Rightarrow> js_error + URL" where
  "new_URL rt s = (if URL_accepts rt s then Inr (URL s []) else Inl (TypeError ''Invalid URL''))"

fun searchParams_append :: "URL \<Rightarrow> string \<Rightarrow> string \<Rightarrow> URL" where
  "searchParams_append (URL s ps) k v = URL s (ps @ [(k, v)])"

subsection \<open>Promises\<close>

text \<open>\<^verbatim>\<open>p.then(f)\<close>: a rejection passes through; a value goes to \<open>f\<close>, and what \<open>f\<close>
  throws rejects the new promise.\<close>

fun promise_then :: "event list \<times> outcome \<Rightarrow> (jsval \<Rightarrow> js_error + jsval) \<Rightarrow> event list \<times> outcome" where
  "promise_then (tr, Resolved v) f =
     (case f v of Inl e \<Rightarrow> (tr, Rejected (Thrown e)) | Inr w \<Rightarrow> (tr, Resolved w))"
| "promise_then (tr, Rejected r) f = (tr, Rejected r)"

text \<open>The events of a step that follows earlier events.\<close>

fun after :: "event list \<Rightarrow> event list \<times> outcome \<Rightarrow> event list \<times> outcome" where
  "after tr (tr', out) = (tr @ tr', out)"

section \<open>\<^verbatim>\<open>fetchJson\<close> (lines 32 to 53)\<close>

text \<open>The \<^verbatim>\<open>catch\<close> block, lines 46 to 52.\<close>

definition catch_block :: "js_error \<Rightarrow> jsval \<Rightarrow> event list \<times> outcome" where
  "catch_block error onCancel =
     (if name error \<noteq> ''AbortError'' then ([ConsoleError (stack error)], Rejected (Thrown error))
      else ([], Resolved onCancel))"

text \<open>
  The \<^verbatim>\<open>try\<close> block, lines 33 to 45. \<^verbatim>\<open>return Promise.reject(...)\<close> is not awaited, so
  the rejection leaves the function without entering the \<^verbatim>\<open>catch\<close> block. A call with two
  arguments has \<open>onCancel = Undef\<close>.
\<close>

definition fetchJson :: "runtime \<Rightarrow> resource \<Rightarrow> options \<Rightarrow> jsval \<Rightarrow> event list \<times> outcome" where
  "fetchJson rt url opts onCancel =
     (case fetch rt url opts of
        FetchRejects error \<Rightarrow> after [Fetch url opts] (catch_block error onCancel)
      | FetchResolves response \<Rightarrow>
          if status response = 204 then ([Fetch url opts], Resolved Null)
          else
            (case json response of
               Inl error \<Rightarrow> after [Fetch url opts, ReadJson] (catch_block error onCancel)
             | Inr payload \<Rightarrow>
                 (case get_property payload ''error'' of
                    Inl error \<Rightarrow> after [Fetch url opts, ReadJson] (catch_block error onCancel)
                  | Inr err \<Rightarrow>
                      if truthy err
                      then ([Fetch url opts, ReadJson], Rejected (Reason (JObj [(''message'', err)])))
                      else
                        (case get_property payload ''data'' of
                           Inl error \<Rightarrow> after [Fetch url opts, ReadJson] (catch_block error onCancel)
                         | Inr d \<Rightarrow> ([Fetch url opts, ReadJson], Resolved d)))))"

section \<open>The exported operations\<close>

text \<open>An \<^verbatim>\<open>async\<close> function turns what its body throws before the first request into a
  rejection, with no event.\<close>

definition throws :: "js_error \<Rightarrow> event list \<times> outcome" where
  "throws e = ([], Rejected (Thrown e))"

text \<open>Lines 63 to 65: \<^verbatim>\<open>forEach\<close> over the entries, left to right; the first
  \<^verbatim>\<open>value.toString()\<close> that throws ends the loop.\<close>

fun forEach_append :: "URL \<Rightarrow> (string \<times> jsval) list \<Rightarrow> js_error + URL" where
  "forEach_append url [] = Inr url"
| "forEach_append url ((key, v) # rest) =
     (case toString v of
        Inl e \<Rightarrow> Inl e
      | Inr s \<Rightarrow> forEach_append (searchParams_append url key s) rest)"

definition listReservations :: "runtime \<Rightarrow> (string \<times> jsval) list \<Rightarrow> nat option \<Rightarrow> event list \<times> outcome" where
  "listReservations rt params signal =
     (case new_URL rt (API_BASE_URL rt @ ''/reservations'') of
        Inl e \<Rightarrow> throws e
      | Inr url0 \<Rightarrow>
          (case forEach_append url0 (Object_entries params) of
             Inl e \<Rightarrow> throws e
           | Inr url \<Rightarrow>
               promise_then
                 (promise_then
                    (fetchJson rt (UrlObject url)
                       \<lparr>req_method = None, req_headers = headers, req_body = None, req_signal = signal\<rparr>
                       (JArr []))
                    (formatReservationDate rt))
                 (formatReservationTime rt)))"

definition listTables :: "runtime \<Rightarrow> nat option \<Rightarrow> event list \<times> outcome" where
  "listTables rt signal =
     (case new_URL rt (API_BASE_URL rt @ ''/tables'') of
        Inl e \<Rightarrow> throws e
      | Inr url \<Rightarrow>
          fetchJson rt (UrlObject url)
            \<lparr>req_method = Some ''GET'', req_headers = headers, req_body = None, req_signal = signal\<rparr>
            (JArr []))"

text \<open>Lines 99 and 100: the awaited value is dropped; a rejection is thrown on.\<close>

definition createReservation :: "runtime \<Rightarrow> jsval \<Rightarrow> nat option \<Rightarrow> event list \<times> outcome" where
  "createReservation rt newReservation signal =
     (case fetchJson rt (Href (API_BASE_URL rt @ ''/reservations''))
             \<lparr>req_method = Some ''POST'', req_headers = headers,
              req_body = Some (JSON_stringify rt (JObj [(''data'', newReservation)])),
              req_signal = signal\<rparr>
             Undef of
        (tr, Rejected r) \<Rightarrow> (tr, Rejected r)
      | (tr, Resolved v) \<Rightarrow> (tr, Resolved (JStr ''seated'')))"

definition createTable :: "runtime \<Rightarrow> jsval \<Rightarrow> nat option \<Rightarrow> event list \<times> outcome" where
  "createTable rt newTable signal =
     fetchJson rt (Href (API_BASE_URL rt @ ''/tables''))
       \<lparr>req_method = Some ''POST'', req_headers = headers,
        req_body = Some (JSON_stringify rt (JObj [(''data'', newTable)])),
        req_signal = signal\<rparr>
       Undef"

definition readReservations :: "runtime \<Rightarrow> jsval \<Rightarrow> nat option \<Rightarrow> event list \<times> outcome" where
  "readReservations rt ident signal =
     (case ToString ident of
        Inl e \<Rightarrow> throws e
      | Inr i \<Rightarrow>
          (case new_URL rt (API_BASE_URL rt @ ''/reservations/'' @ i) of
             Inl e \<Rightarrow> throws e
           | Inr url \<Rightarrow>
               promise_then
                 (promise_then
                    (fetchJson rt (UrlObject url)
                       \<lparr>req_method = None, req_headers = headers, req_body = None, req_signal = signal\<rparr>
                       (JArr []))
                    (formatReservationDate rt))
                 (formatReservationTime rt)))"

definition seatTable :: "runtime \<Rightarrow> jsval \<Rightarrow> jsval \<Rightarrow> nat option \<Rightarrow> event list \<times> outcome" where
  "seatTable rt tableId reservationId signal =
     (case ToString tableId of
        Inl e \<Rightarrow> throws e
      | Inr t \<Rightarrow>
          fetchJson rt (Href (API_BASE_URL rt @ ''/tables/'' @ t @ ''/seat''))
            \<lparr>req_method = Some ''PUT'', req_headers = headers,
             req_body = Some (JSON_stringify rt (JObj [(''data'', JObj [(''reservation_id'', reservationId)])])),
             req_signal = signal\<rparr>
            Undef)"

definition clearTable :: "runtime \<Rightarrow> jsval \<Rightarrow> nat option \<Rightarrow> event list \<times> outcome" where
  "clearTable rt tableId signal =
     (case ToString tableId of
        Inl e \<Rightarrow> throws e
      | Inr t \<Rightarrow>
          fetchJson rt (Href (API_BASE_URL rt @ ''/tables/'' @ t @ ''/seat''))
            \<lparr>req_method = Some ''DELETE'', req_headers = headers, req_body = None, req_signal = signal\<rparr>
            Undef)"

definition searchReservationsByPhone :: "runtime \<Rightarrow> jsval \<Rightarrow> nat option \<Rightarrow> event list \<times> outcome" where
  "searchReservationsByPhone rt phoneNumber signal =
     (case ToString phoneNumber of
        Inl e \<Rightarrow> throws e
      | Inr p \<Rightarrow>
          (case new_URL rt (API_BASE_URL rt @ ''/reservations?mobile_number='' @ p) of
             Inl e \<Rightarrow> throws e
           | Inr url \<Rightarrow>
               promise_then
                 (promise_then
                    (fetchJson rt (UrlObject url)
                       \<lparr>req_method = None, req_headers = headers, req_body = None, req_signal = signal\<rparr>
                       (JArr []))
                    (formatReservationDate rt))
                 (formatReservationTime rt)))"

definition cancelReservation :: "runtime \<Rightarrow> jsval \<Rightarrow> nat option \<Rightarrow> event list \<times> outcome" where
  "cancelReservation rt reservationId signal =
     (case ToString reservationId of
        Inl e \<Rightarrow> throws e
      | Inr i \<Rightarrow>
          fetchJson rt (Href (API_BASE_URL rt @ ''/reservations/'' @ i @ ''/status''))
            \<lparr>req_method = Some ''PUT'', req_headers = headers,
             req_body = Some (JSON_stringify rt (JObj [(''data'', JObj [(''status'', JStr ''cancelled'')])])),
             req_signal = signal\<rparr>
            Undef)"

definition editReservation :: "runtime \<Rightarrow> jsval \<Rightarrow> jsval \<Rightarrow> nat option \<Rightarrow> event list \<times> outcome" where
  "editReservation rt reservationId updatedReservation signal =
     (case ToString reservationId of
        Inl e \<Rightarrow> throws e
      | Inr i \<Rightarrow>
          fetchJson rt (Href (API_BASE_URL rt @ ''/reservations/'' @ i))
            \<lparr>req_method = Some ''PUT'', req_headers = headers,
             req_body = Some (JSON_stringify rt (JObj [(''data'', updatedReservation)])),
             req_signal = signal\<rparr>
            Undef)"

text \<open>A call of one of the ten exported operations, with its arguments.\<close>

datatype call =
    ListReservations "(string \<times> jsval) list" "nat option"
  | ListTables "nat option"
  | CreateReservation jsval "nat option"
  | CreateTable jsval "nat option"
  | ReadReservations jsval "nat option"
  | SeatTable jsval jsval "nat option"
  | ClearTable jsval "nat option"
  | SearchReservationsByPhone jsval "nat option"
  | CancelReservation jsval "nat option"
  | EditReservation jsval jsval "nat option"

fun perform :: "runtime \<Rightarrow> call \<Rightarrow> event list \<times> outcome" where
  "perform rt (ListReservations params signal) = listReservations rt params signal"
| "perform rt (ListTables signal) = listTables rt signal"
| "perform rt (CreateReservation newReservation signal) = createReservation rt newReservation signal"
| "perform rt (CreateTable newTable signal) = createTable rt newTable signal"
| "perform rt (ReadReservations ident signal) = readReservations rt ident signal"
| "perform rt (SeatTable tableId reservationId signal) = seatTable rt tableId reservationId signal"
| "perform rt (ClearTable tableId signal) = clearTable rt tableId signal"
| "perform rt (SearchReservationsByPhone phoneNumber signal) = searchReservationsByPhone rt phoneNumber signal"
| "perform rt (CancelReservation reservationId signal) = cancelReservation rt reservationId signal"
| "perform rt (EditReservation reservationId updatedReservation signal) =
     editReservation rt reservationId updatedReservation signal"

section \<open>A runtime for the examples\<close>

text \<open>
  A server that answers every request with the same result, with the environment
  variable unset and every URL text accepted. The formatter marks the value it is
  applied to, so that its applications can be counted in a result. \<open>JSON_stringify\<close>
  is a stand-in that gives the text \<^verbatim>\<open>{}\<close> for every value: the theorems hold for
  every serializer, and an example needs one.
\<close>

definition example_runtime :: "fetch_result \<Rightarrow> runtime" where
  "example_runtime answer =
     \<lparr>REACT_APP_API_BASE_URL = None,
      fetch = (\<lambda>url opts. answer),
      URL_accepts = (\<lambda>s. True),
      JSON_stringify = (\<lambda>v. ''{}''),
      format_reservation_date_default = (\<lambda>v. Inr (JArr [JStr ''date'', v]))\<rparr>"

text \<open>The exception with which \<^verbatim>\<open>fetch\<close> rejects when its signal is triggered.\<close>

definition AbortError :: js_error where
  "AbortError =
     \<lparr>name = ''AbortError'', message = ''The user aborted a request.'',
      stack = ''AbortError: The user aborted a request.''\<rparr>"

text \<open>The exception of a request that could not be sent.\<close>

definition NetworkError :: js_error where
  "NetworkError =
     \<lparr>name = ''TypeError'', message = ''Failed to fetch'', stack = ''TypeError: Failed to fetch''\<rparr>"

section \<open>Basic facts\<close>

text \<open>\<^verbatim>\<open>fetchJson\<close> issues the request it is given, first, and no other.\<close>

lemma fetchJson_trace:
  "Fetch u o' \<in> set (fst (fetchJson rt url opts oc)) \<Longrightarrow> u = url \<and> o' = opts"
  by (auto simp: fetchJson_def catch_block_def split: fetch_result.splits sum.splits if_splits)

lemma fetchJson_starts_with_request:
  "\<exists>tr. fst (fetchJson rt url opts oc) = Fetch url opts # tr"
  by (auto simp: fetchJson_def catch_block_def split: fetch_result.splits sum.splits)

lemma promise_then_fst [simp]: "fst (promise_then p f) = fst p"
  by (cases "(p, f)" rule: promise_then.cases) (auto split: sum.splits)

lemma promise_then_Rejected [simp]:
  "snd p = Rejected r \<Longrightarrow> snd (promise_then p f) = Rejected r"
  by (cases "(p, f)" rule: promise_then.cases) (auto split: sum.splits)

lemma throws_fst [simp]: "fst (throws e) = []"
  by (simp add: throws_def)

lemma createReservation_fst:
  "fst (createReservation rt n s) =
   fst (fetchJson rt (Href (API_BASE_URL rt @ ''/reservations''))
          \<lparr>req_method = Some ''POST'', req_headers = headers,
           req_body = Some (JSON_stringify rt (JObj [(''data'', n)])), req_signal = s\<rparr> Undef)"
  by (simp add: createReservation_def split: prod.splits outcome.splits)

lemma createReservation_snd:
  "snd (createReservation rt n s) =
   (case snd (fetchJson rt (Href (API_BASE_URL rt @ ''/reservations''))
          \<lparr>req_method = Some ''POST'', req_headers = headers,
           req_body = Some (JSON_stringify rt (JObj [(''data'', n)])), req_signal = s\<rparr> Undef) of
      Resolved v \<Rightarrow> Resolved (JStr ''seated'')
    | Rejected r \<Rightarrow> Rejected r)"
  by (simp add: createReservation_def split: prod.splits outcome.splits)

lemmas op_defs = listReservations_def listTables_def createTable_def
  readReservations_def seatTable_def clearTable_def searchReservationsByPhone_def
  cancelReservation_def editReservation_def

text \<open>
  What each operation does with the result of \<^verbatim>\<open>fetchJson\<close>, once it has issued a request:
  which fallback it passes, and whether it hands the result on, formats it or drops it.
\<close>

lemma perform_shape:
  assumes "Fetch url opts \<in> set (fst (perform rt c))"
  shows "case c of
           ListTables s \<Rightarrow> perform rt c = fetchJson rt url opts (JArr [])
         | ListReservations p s \<Rightarrow>
             perform rt c =
             promise_then (promise_then (fetchJson rt url opts (JArr [])) (formatReservationDate rt))
               (formatReservationTime rt)
         | ReadReservations i s \<Rightarrow>
             perform rt c =
             promise_then (promise_then (fetchJson rt url opts (JArr [])) (formatReservationDate rt))
               (formatReservationTime rt)
         | SearchReservationsByPhone p s \<Rightarrow>
             perform rt c =
             promise_then (promise_then (fetchJson rt url opts (JArr [])) (formatReservationDate rt))
               (formatReservationTime rt)
         | CreateReservation n s \<Rightarrow>
             perform rt c =
             (case fetchJson rt url opts Undef of
                (tr, Rejected r) \<Rightarrow> (tr, Rejected r)
              | (tr, Resolved v) \<Rightarrow> (tr, Resolved (JStr ''seated'')))
         | _ \<Rightarrow> perform rt c = fetchJson rt url opts Undef"
proof (cases c)
  case (CreateReservation n s)
  with assms have "Fetch url opts \<in> set (fst (fetchJson rt (Href (API_BASE_URL rt @ ''/reservations''))
          \<lparr>req_method = Some ''POST'', req_headers = headers,
           req_body = Some (JSON_stringify rt (JObj [(''data'', n)])), req_signal = s\<rparr> Undef))"
    by (simp add: createReservation_fst)
  from fetchJson_trace [OF this] CreateReservation show ?thesis
    by (simp add: createReservation_def)
qed (use assms in \<open>auto simp: op_defs split: sum.splits dest!: fetchJson_trace\<close>)

lemma fetchJson_remote_error:
  assumes "fetch rt url opts = FetchResolves resp" and "status resp \<noteq> 204"
    and "json resp = Inr payload" and "get_property payload ''error'' = Inr err" and "truthy err"
  shows "fetchJson rt url opts oc =
         ([Fetch url opts, ReadJson], Rejected (Reason (JObj [(''message'', err)])))"
  using assms by (simp add: fetchJson_def)

lemma fetchJson_exception:
  assumes "fetch rt url opts = FetchRejects error
           \<or> (\<exists>resp. fetch rt url opts = FetchResolves resp \<and> status resp \<noteq> 204
                 \<and> (json resp = Inl error
                      \<or> (\<exists>payload. json resp = Inr payload
                            \<and> get_property payload ''error'' = Inl error)))"
      and "name error \<noteq> ''AbortError''"
  shows "fetchJson rt url opts oc =
           ([Fetch url opts, ConsoleError (stack error)], Rejected (Thrown error))
         \<or> fetchJson rt url opts oc =
           ([Fetch url opts, ReadJson, ConsoleError (stack error)], Rejected (Thrown error))"
  using assms by (auto simp: fetchJson_def catch_block_def)

lemma fetchJson_abort:
  assumes "fetch rt url opts = FetchRejects error" and "name error = ''AbortError''"
  shows "fetchJson rt url opts oc = ([Fetch url opts], Resolved oc)"
  using assms by (simp add: fetchJson_def catch_block_def)

subsection \<open>The loop over the entries\<close>

lemma forEach_append_texts:
  "\<forall>v \<in> snd ` set es. \<not> isl (toString v) \<Longrightarrow>
   forEach_append (URL s ps) es =
   Inr (URL s (ps @ map (\<lambda>(key, v). (key, projr (toString v))) es))"
proof (induction es arbitrary: ps)
  case Nil
  then show ?case by simp
next
  case (Cons e es)
  obtain key v where e: "e = (key, v)" by (cases e)
  from Cons.prems e obtain t where t: "toString v = Inr t" by (cases "toString v") auto
  from Cons.prems have "\<forall>v \<in> snd ` set es. \<not> isl (toString v)" by simp
  from Cons.IH [OF this] e t show ?case by simp
qed

lemma set_Object_entries [simp]: "set (Object_entries ps) = set ps"
  by (auto simp: Object_entries_def)

lemma Object_entries_no_index:
  assumes "\<forall>k \<in> fst ` set ps. array_index k = None"
  shows "Object_entries ps = ps"
proof -
  from assms have 1: "filter (\<lambda>(k, v). array_index k \<noteq> None) ps = []"
    by (auto simp: filter_empty_conv)
  from assms have 2: "filter (\<lambda>(k, v). array_index k = None) ps = ps"
    by (auto simp: filter_id_conv)
  show ?thesis unfolding Object_entries_def 1 2 by simp
qed

text \<open>The order of \<open>Object_entries\<close>: the array-index keys, ascending, and then the
  other keys as they stand in the object.\<close>

lemma Object_entries_order:
  "filter (\<lambda>(k, v). array_index k = None) (Object_entries ps)
     = filter (\<lambda>(k, v). array_index k = None) ps"
  "sorted (map (\<lambda>(k, v). the (array_index k))
     (filter (\<lambda>(k, v). array_index k \<noteq> None) (Object_entries ps)))"
  "Object_entries ps =
     filter (\<lambda>(k, v). array_index k \<noteq> None) (Object_entries ps)
     @ filter (\<lambda>(k, v). array_index k = None) ps"
proof -
  let ?I = "\<lambda>(k, v). array_index k \<noteq> None"
  let ?N = "\<lambda>(k, v :: jsval). array_index k = None"
  let ?S = "sort_key (\<lambda>(k, v). the (array_index k)) (filter ?I ps)"
  have S: "filter ?N ?S = []" "filter ?I ?S = ?S"
    by (auto simp: filter_empty_conv filter_id_conv)
  have N: "filter ?I (filter ?N ps) = []" "filter ?N (filter ?N ps) = filter ?N ps"
    by (auto simp: filter_empty_conv)
  show "filter ?N (Object_entries ps) = filter ?N ps"
    unfolding Object_entries_def filter_append S N by simp
  have I: "filter ?I (Object_entries ps) = ?S"
    unfolding Object_entries_def filter_append S N by simp
  show "sorted (map (\<lambda>(k, v). the (array_index k)) (filter ?I (Object_entries ps)))"
    unfolding I by simp
  show "Object_entries ps = filter ?I (Object_entries ps) @ filter ?N ps"
    unfolding I by (simp add: Object_entries_def)
qed

subsection \<open>The example runtime\<close>

lemma example_base [simp]: "API_BASE_URL (example_runtime a) = ''http://localhost:5001''"
  by (simp add: API_BASE_URL_def example_runtime_def)

lemma example_fetch [simp]: "fetch (example_runtime a) url opts = a"
  by (simp add: example_runtime_def)

lemma example_URL [simp]: "new_URL (example_runtime a) s = Inr (URL s [])"
  by (simp add: new_URL_def example_runtime_def)

lemma example_accepts [simp]: "URL_accepts (example_runtime a) s"
  by (simp add: example_runtime_def)

lemma example_format [simp]:
  "formatReservationDate (example_runtime a) v = Inr (JArr [JStr ''date'', v])"
  "formatReservationTime (example_runtime a) v = Inr (JArr [JStr ''date'', v])"
  by (simp_all add: formatReservationDate_def formatReservationTime_def example_runtime_def)

lemma example_stringify [simp]: "JSON_stringify (example_runtime a) v = ''{}''"
  by (simp add: example_runtime_def)

lemma AbortError_name [simp]: "name AbortError = ''AbortError''"
  by (simp add: AbortError_def)

lemma NetworkError_fields [simp]:
  "name NetworkError = ''TypeError''" "stack NetworkError = ''TypeError: Failed to fetch''"
  by (simp_all add: NetworkError_def)

section \<open>Error envelopes\<close>

text \<open>
  Claim C1. Whichever of the ten operations is called: when the body of the response to
  the request it issued parses to a value whose \<^verbatim>\<open>error\<close> is truthy, the call reads that
  body and rejects with \<^verbatim>\<open>{message: error}\<close>, whatever the status of the response; it
  does not resolve. A response that \<^verbatim>\<open>fetch\<close> delivers with the status 204 has no body,
  so its \<^verbatim>\<open>json()\<close> rejects: that is the third hypothesis.
\<close>

theorem remote_error_rejects:
  assumes "Fetch url opts \<in> set (fst (perform rt c))"
      and "fetch rt url opts = FetchResolves resp"
      and "status resp = 204 \<longrightarrow> isl (json resp)"
      and "json resp = Inr payload"
      and "get_property payload ''error'' = Inr err"
      and "truthy err"
  shows "perform rt c =
         ([Fetch url opts, ReadJson], Rejected (Reason (JObj [(''message'', err)])))"
proof -
  from assms(3,4) have "status resp \<noteq> 204" by auto
  from fetchJson_remote_error [OF assms(2) this assms(4-6)] perform_shape [OF assms(1)]
  show ?thesis by (cases c) simp_all
qed

theorem remote_error_rejects_witness:
  "perform (example_runtime (FetchResolves \<lparr>status = 404, json = Inr (JObj [(''error'', JStr ''Not found'')])\<rparr>)) (ListReservations [(''date'', JStr ''2024-01-01'')] None)
     = ([Fetch (UrlObject (URL ''http://localhost:5001/reservations'' [(''date'', ''2024-01-01'')]))
           \<lparr>req_method = None, req_headers = headers, req_body = None, req_signal = None\<rparr>,
         ReadJson],
        Rejected (Reason (JObj [(''message'', JStr ''Not found'')])))
   \<and> perform (example_runtime (FetchResolves \<lparr>status = 404, json = Inr (JObj [(''error'', JStr ''Not found'')])\<rparr>)) (ListTables None)
     = ([Fetch (UrlObject (URL ''http://localhost:5001/tables'' []))
           \<lparr>req_method = Some ''GET'', req_headers = headers, req_body = None, req_signal = None\<rparr>,
         ReadJson],
        Rejected (Reason (JObj [(''message'', JStr ''Not found'')])))
   \<and> perform (example_runtime (FetchResolves \<lparr>status = 400, json = Inr (JObj [(''error'', JStr ''Not found'')])\<rparr>)) (CreateReservation (JObj [(''people'', JNum ''2'')]) None)
     = ([Fetch (Href ''http://localhost:5001/reservations'')
           \<lparr>req_method = Some ''POST'', req_headers = headers, req_body = Some ''{}'', req_signal = None\<rparr>,
         ReadJson],
        Rejected (Reason (JObj [(''message'', JStr ''Not found'')])))
   \<and> perform (example_runtime (FetchResolves \<lparr>status = 400, json = Inr (JObj [(''error'', JStr ''Not found'')])\<rparr>)) (CreateTable (JObj [(''capacity'', JNum ''4'')]) None)
     = ([Fetch (Href ''http://localhost:5001/tables'')
           \<lparr>req_method = Some ''POST'', req_headers = headers, req_body = Some ''{}'', req_signal = None\<rparr>,
         ReadJson],
        Rejected (Reason (JObj [(''message'', JStr ''Not found'')])))
   \<and> perform (example_runtime (FetchResolves \<lparr>status = 404, json = Inr (JObj [(''error'', JStr ''Not found'')])\<rparr>)) (ReadReservations (JNum ''12'') None)
     = ([Fetch (UrlObject (URL ''http://localhost:5001/reservations/12'' []))
           \<lparr>req_method = None, req_headers = headers, req_body = None, req_signal = None\<rparr>,
         ReadJson],
        Rejected (Reason (JObj [(''message'', JStr ''Not found'')])))
   \<and> perform (example_runtime (FetchResolves \<lparr>status = 200, json = Inr (JObj [(''error'', JStr ''Not found'')])\<rparr>)) (SeatTable (JNum ''7'') (JNum ''42'') None)
     = ([Fetch (Href ''http://localhost:5001/tables/7/seat'')
           \<lparr>req_method = Some ''PUT'', req_headers = headers, req_body = Some ''{}'', req_signal = None\<rparr>,
         ReadJson],
        Rejected (Reason (JObj [(''message'', JStr ''Not found'')])))
   \<and> perform (example_runtime (FetchResolves \<lparr>status = 200, json = Inr (JObj [(''error'', JStr ''Not found'')])\<rparr>)) (ClearTable (JNum ''7'') None)
     = ([Fetch (Href ''http://localhost:5001/tables/7/seat'')
           \<lparr>req_method = Some ''DELETE'', req_headers = headers, req_body = None, req_signal = None\<rparr>,
         ReadJson],
        Rejected (Reason (JObj [(''message'', JStr ''Not found'')])))
   \<and> perform (example_runtime (FetchResolves \<lparr>status = 500, json = Inr (JObj [(''error'', JStr ''Not found'')])\<rparr>)) (SearchReservationsByPhone (JStr ''555-1234'') None)
     = ([Fetch (UrlObject (URL ''http://localhost:5001/reservations?mobile_number=555-1234'' []))
           \<lparr>req_method = None, req_headers = headers, req_body = None, req_signal = None\<rparr>,
         ReadJson],
        Rejected (Reason (JObj [(''message'', JStr ''Not found'')])))
   \<and> perform (example_runtime (FetchResolves \<lparr>status = 500, json = Inr (JObj [(''error'', JStr ''Not found'')])\<rparr>)) (CancelReservation (JNum ''12'') None)
     = ([Fetch (Href ''http://localhost:5001/reservations/12/status'')
           \<lparr>req_method = Some ''PUT'', req_headers = headers, req_body = Some ''{}'', req_signal = None\<rparr>,
         ReadJson],
        Rejected (Reason (JObj [(''message'', JStr ''Not found'')])))
   \<and> perform (example_runtime (FetchResolves \<lparr>status = 500, json = Inr (JObj [(''error'', JStr ''Not found'')])\<rparr>)) (EditReservation (JNum ''12'') (JObj [(''people'', JNum ''3'')]) None)
     = ([Fetch (Href ''http://localhost:5001/reservations/12'')
           \<lparr>req_method = Some ''PUT'', req_headers = headers, req_body = Some ''{}'', req_signal = None\<rparr>,
         ReadJson],
        Rejected (Reason (JObj [(''message'', JStr ''Not found'')])))"
proof -
  have f: "fetch (example_runtime (FetchResolves r)) url opts = FetchResolves r" for r url opts
    by simp
  have s: "status \<lparr>status = n, json = Inr (JObj [(''error'', JStr ''Not found'')])\<rparr> = 204
           \<longrightarrow> isl (json \<lparr>status = n, json = Inr (JObj [(''error'', JStr ''Not found'')])\<rparr>)"
    if "n \<noteq> 204" for n :: nat
    using that by simp
  have j: "json \<lparr>status = n, json = Inr (JObj [(''error'', JStr ''Not found'')])\<rparr>
           = Inr (JObj [(''error'', JStr ''Not found'')])" for n :: nat
    by simp
  have g: "get_property (JObj [(''error'', JStr ''Not found'')]) ''error'' = Inr (JStr ''Not found'')"
    by simp
  have t: "truthy (JStr ''Not found'')" by simp
  note ev = op_defs createReservation_fst fetchJson_def Object_entries_def array_index_def
    is_digit_def toString_def
  have a1: "Fetch (UrlObject (URL ''http://localhost:5001/reservations'' [(''date'', ''2024-01-01'')]))
      \<lparr>req_method = None, req_headers = headers, req_body = None, req_signal = None\<rparr>
    \<in> set (fst (perform (example_runtime (FetchResolves \<lparr>status = 404, json = Inr (JObj [(''error'', JStr ''Not found'')])\<rparr>)) (ListReservations [(''date'', JStr ''2024-01-01'')] None)))"
    by (simp add: ev)
  have a2: "Fetch (UrlObject (URL ''http://localhost:5001/tables'' []))
      \<lparr>req_method = Some ''GET'', req_headers = headers, req_body = None, req_signal = None\<rparr>
    \<in> set (fst (perform (example_runtime (FetchResolves \<lparr>status = 404, json = Inr (JObj [(''error'', JStr ''Not found'')])\<rparr>)) (ListTables None)))"
    by (simp add: ev)
  have a3: "Fetch (Href ''http://localhost:5001/reservations'')
      \<lparr>req_method = Some ''POST'', req_headers = headers, req_body = Some ''{}'', req_signal = None\<rparr>
    \<in> set (fst (perform (example_runtime (FetchResolves \<lparr>status = 400, json = Inr (JObj [(''error'', JStr ''Not found'')])\<rparr>)) (CreateReservation (JObj [(''people'', JNum ''2'')]) None)))"
    by (simp add: ev)
  have a4: "Fetch (Href ''http://localhost:5001/tables'')
      \<lparr>req_method = Some ''POST'', req_headers = headers, req_body = Some ''{}'', req_signal = None\<rparr>
    \<in> set (fst (perform (example_runtime (FetchResolves \<lparr>status = 400, json = Inr (JObj [(''error'', JStr ''Not found'')])\<rparr>)) (CreateTable (JObj [(''capacity'', JNum ''4'')]) None)))"
    by (simp add: ev)
  have a5: "Fetch (UrlObject (URL ''http://localhost:5001/reservations/12'' []))
      \<lparr>req_method = None, req_headers = headers, req_body = None, req_signal = None\<rparr>
    \<in> set (fst (perform (example_runtime (FetchResolves \<lparr>status = 404, json = Inr (JObj [(''error'', JStr ''Not found'')])\<rparr>)) (ReadReservations (JNum ''12'') None)))"
    by (simp add: ev)
  have a6: "Fetch (Href ''http://localhost:5001/tables/7/seat'')
      \<lparr>req_method = Some ''PUT'', req_headers = headers, req_body = Some ''{}'', req_signal = None\<rparr>
    \<in> set (fst (perform (example_runtime (FetchResolves \<lparr>status = 200, json = Inr (JObj [(''error'', JStr ''Not found'')])\<rparr>)) (SeatTable (JNum ''7'') (JNum ''42'') None)))"
    by (simp add: ev)
  have a7: "Fetch (Href ''http://localhost:5001/tables/7/seat'')
      \<lparr>req_method = Some ''DELETE'', req_headers = headers, req_body = None, req_signal = None\<rparr>
    \<in> set (fst (perform (example_runtime (FetchResolves \<lparr>status = 200, json = Inr (JObj [(''error'', JStr ''Not found'')])\<rparr>)) (ClearTable (JNum ''7'') None)))"
    by (simp add: ev)
  have a8: "Fetch (UrlObject (URL ''http://localhost:5001/reservations?mobile_number=555-1234'' []))
      \<lparr>req_method = None, req_headers = headers, req_body = None, req_signal = None\<rparr>
    \<in> set (fst (perform (example_runtime (FetchResolves \<lparr>status = 500, json = Inr (JObj [(''error'', JStr ''Not found'')])\<rparr>)) (SearchReservationsByPhone (JStr ''555-1234'') None)))"
    by (simp add: ev)
  have a9: "Fetch (Href ''http://localhost:5001/reservations/12/status'')
      \<lparr>req_method = Some ''PUT'', req_headers = headers, req_body = Some ''{}'', req_signal = None\<rparr>
    \<in> set (fst (perform (example_runtime (FetchResolves \<lparr>status = 500, json = Inr (JObj [(''error'', JStr ''Not found'')])\<rparr>)) (CancelReservation (JNum ''12'') None)))"
    by (simp add: ev)
  have a10: "Fetch (Href ''http://localhost:5001/reservations/12'')
      \<lparr>req_method = Some ''PUT'', req_headers = headers, req_body = Some ''{}'', req_signal = None\<rparr>
    \<in> set (fst (perform (example_runtime (FetchResolves \<lparr>status = 500, json = Inr (JObj [(''error'', JStr ''Not found'')])\<rparr>)) (EditReservation (JNum ''12'') (JObj [(''people'', JNum ''3'')]) None)))"
    by (simp add: ev)
  show ?thesis
    using remote_error_rejects [OF a1 f s j g t]
      remote_error_rejects [OF a2 f s j g t]
      remote_error_rejects [OF a3 f s j g t]
      remote_error_rejects [OF a4 f s j g t]
      remote_error_rejects [OF a5 f s j g t]
      remote_error_rejects [OF a6 f s j g t]
      remote_error_rejects [OF a7 f s j g t]
      remote_error_rejects [OF a8 f s j g t]
      remote_error_rejects [OF a9 f s j g t]
      remote_error_rejects [OF a10 f s j g t]
    by simp
qed

section \<open>Cancellation\<close>

text \<open>
  Claim C2. When \<^verbatim>\<open>fetch\<close> rejects with an exception named \<^verbatim>\<open>AbortError\<close>, \<^verbatim>\<open>fetchJson\<close>
  resolves with its third argument \<^verbatim>\<open>onCancel\<close>, whatever that is (\<open>Undef\<close> when the call
  gives two arguments); it does not reject, and it logs nothing.
\<close>

theorem abort_resolves_with_fallback:
  assumes "fetch rt url opts = FetchRejects error" and "name error = ''AbortError''"
  shows "fetchJson rt url opts onCancel = ([Fetch url opts], Resolved onCancel)"
  using assms by (simp add: fetchJson_def catch_block_def)

theorem abort_resolves_with_fallback_witness:
  "fetch (example_runtime (FetchRejects AbortError)) (Href ''http://localhost:5001/tables'')
      \<lparr>req_method = Some ''POST'', req_headers = headers, req_body = Some ''{}'', req_signal = Some 1\<rparr>
     = FetchRejects AbortError
   \<and> name AbortError = ''AbortError''
   \<and> fetchJson (example_runtime (FetchRejects AbortError)) (Href ''http://localhost:5001/tables'')
        \<lparr>req_method = Some ''POST'', req_headers = headers, req_body = Some ''{}'', req_signal = Some 1\<rparr>
        Undef
     = ([Fetch (Href ''http://localhost:5001/tables'')
           \<lparr>req_method = Some ''POST'', req_headers = headers, req_body = Some ''{}'', req_signal = Some 1\<rparr>],
        Resolved Undef)"
proof -
  let ?rt = "example_runtime (FetchRejects AbortError)"
  have 1: "fetch ?rt url opts = FetchRejects AbortError" for url opts by simp
  have 2: "name AbortError = ''AbortError''" by simp
  from abort_resolves_with_fallback [OF 1 2] 1 2 show ?thesis by simp
qed

text \<open>
  Claim C9. \<^verbatim>\<open>createReservation\<close> whose request is aborted resolves with the text
  \<^verbatim>\<open>"seated"\<close>: the \<^verbatim>\<open>undefined\<close> that \<^verbatim>\<open>fetchJson\<close> resolves with is dropped at line 99.
\<close>

theorem create_reservation_abort_seated:
  assumes "fetch rt (Href (API_BASE_URL rt @ ''/reservations''))
             \<lparr>req_method = Some ''POST'', req_headers = headers,
              req_body = Some (JSON_stringify rt (JObj [(''data'', newRes)])),
              req_signal = signal\<rparr> = FetchRejects error"
      and "name error = ''AbortError''"
  shows "createReservation rt newRes signal =
         ([Fetch (Href (API_BASE_URL rt @ ''/reservations''))
             \<lparr>req_method = Some ''POST'', req_headers = headers,
              req_body = Some (JSON_stringify rt (JObj [(''data'', newRes)])),
              req_signal = signal\<rparr>],
          Resolved (JStr ''seated''))"
  using assms by (simp add: createReservation_def fetchJson_def catch_block_def)

theorem create_reservation_abort_seated_witness:
  "createReservation (example_runtime (FetchRejects AbortError))
     (JObj [(''first_name'', JStr ''Ada''), (''people'', JNum ''2'')]) (Some 1) =
   ([Fetch (Href ''http://localhost:5001/reservations'')
       \<lparr>req_method = Some ''POST'', req_headers = headers, req_body = Some ''{}'',
        req_signal = Some 1\<rparr>],
    Resolved (JStr ''seated''))"
proof -
  let ?rt = "example_runtime (FetchRejects AbortError)"
  have 1: "fetch ?rt url opts = FetchRejects AbortError" for url opts by simp
  have 2: "name AbortError = ''AbortError''" by simp
  from create_reservation_abort_seated [of ?rt _ _ AbortError, OF 1 2] show ?thesis by simp
qed

text \<open>
  Claim C10. \<^verbatim>\<open>listReservations\<close>, \<^verbatim>\<open>listTables\<close>, \<^verbatim>\<open>readReservations\<close> and
  \<^verbatim>\<open>searchReservationsByPhone\<close> pass \<^verbatim>\<open>[]\<close> to \<^verbatim>\<open>fetchJson\<close> as the fallback. When every
  request that carries the signal is aborted, each of them issues its request (its URL
  being accepted, its arguments having a text), and then \<^verbatim>\<open>listTables\<close> resolves with the
  empty array, and the three reservation operations settle with what the two \<^verbatim>\<open>then\<close>
  steps make of the empty array: \<^verbatim>\<open>undefined\<close> is not what they are given.
\<close>

theorem list_operations_abort_empty_array:
  assumes "\<forall>url opts. req_signal opts = signal \<longrightarrow> fetch rt url opts = FetchRejects error"
      and "name error = ''AbortError''"
  shows "(URL_accepts rt (API_BASE_URL rt @ ''/tables'') \<longrightarrow>
            listTables rt signal =
            ([Fetch (UrlObject (URL (API_BASE_URL rt @ ''/tables'') []))
                \<lparr>req_method = Some ''GET'', req_headers = headers, req_body = None,
                 req_signal = signal\<rparr>],
             Resolved (JArr [])))
       \<and> (URL_accepts rt (API_BASE_URL rt @ ''/reservations'')
            \<and> forEach_append (URL (API_BASE_URL rt @ ''/reservations'') []) (Object_entries params)
                = Inr url \<longrightarrow>
            listReservations rt params signal =
            promise_then
              (promise_then
                 ([Fetch (UrlObject url)
                     \<lparr>req_method = None, req_headers = headers, req_body = None,
                      req_signal = signal\<rparr>],
                  Resolved (JArr []))
                 (formatReservationDate rt))
              (formatReservationTime rt))
       \<and> (ToString ident = Inr i \<and> URL_accepts rt (API_BASE_URL rt @ ''/reservations/'' @ i) \<longrightarrow>
            readReservations rt ident signal =
            promise_then
              (promise_then
                 ([Fetch (UrlObject (URL (API_BASE_URL rt @ ''/reservations/'' @ i) []))
                     \<lparr>req_method = None, req_headers = headers, req_body = None,
                      req_signal = signal\<rparr>],
                  Resolved (JArr []))
                 (formatReservationDate rt))
              (formatReservationTime rt))
       \<and> (ToString phoneNumber = Inr p
            \<and> URL_accepts rt (API_BASE_URL rt @ ''/reservations?mobile_number='' @ p) \<longrightarrow>
            searchReservationsByPhone rt phoneNumber signal =
            promise_then
              (promise_then
                 ([Fetch (UrlObject (URL (API_BASE_URL rt @ ''/reservations?mobile_number='' @ p) []))
                     \<lparr>req_method = None, req_headers = headers, req_body = None,
                      req_signal = signal\<rparr>],
                  Resolved (JArr []))
                 (formatReservationDate rt))
              (formatReservationTime rt))"
proof -
  have ab: "fetchJson rt u \<lparr>req_method = m, req_headers = headers, req_body = None, req_signal = signal\<rparr> oc
            = ([Fetch u \<lparr>req_method = m, req_headers = headers, req_body = None, req_signal = signal\<rparr>],
               Resolved oc)" for u m oc
    using assms by (intro fetchJson_abort) simp_all
  show ?thesis
    by (simp add: listTables_def listReservations_def readReservations_def
          searchReservationsByPhone_def new_URL_def ab)
qed

theorem list_operations_abort_empty_array_witness:
  "listTables (example_runtime (FetchRejects AbortError)) (Some 1) =
     ([Fetch (UrlObject (URL ''http://localhost:5001/tables'' []))
         \<lparr>req_method = Some ''GET'', req_headers = headers, req_body = None, req_signal = Some 1\<rparr>],
      Resolved (JArr []))
   \<and> listReservations (example_runtime (FetchRejects AbortError))
        [(''date'', JStr ''2024-01-01'')] (Some 1) =
     ([Fetch (UrlObject (URL ''http://localhost:5001/reservations'' [(''date'', ''2024-01-01'')]))
         \<lparr>req_method = None, req_headers = headers, req_body = None, req_signal = Some 1\<rparr>],
      Resolved (JArr [JStr ''date'', JArr [JStr ''date'', JArr []]]))
   \<and> readReservations (example_runtime (FetchRejects AbortError)) (JNum ''12'') (Some 1) =
     ([Fetch (UrlObject (URL ''http://localhost:5001/reservations/12'' []))
         \<lparr>req_method = None, req_headers = headers, req_body = None, req_signal = Some 1\<rparr>],
      Resolved (JArr [JStr ''date'', JArr [JStr ''date'', JArr []]]))
   \<and> searchReservationsByPhone (example_runtime (FetchRejects AbortError)) (JStr ''555-1234'') (Some 1) =
     ([Fetch (UrlObject (URL ''http://localhost:5001/reservations?mobile_number=555-1234'' []))
         \<lparr>req_method = None, req_headers = headers, req_body = None, req_signal = Some 1\<rparr>],
      Resolved (JArr [JStr ''date'', JArr [JStr ''date'', JArr []]]))"
proof -
  let ?rt = "example_runtime (FetchRejects AbortError)"
  let ?params = "[(''date'', JStr ''2024-01-01'')]"
  have f: "\<forall>url opts. req_signal opts = Some (1::nat) \<longrightarrow> fetch ?rt url opts = FetchRejects AbortError"
    by simp
  have n: "name AbortError = ''AbortError''" by simp
  have a: "URL_accepts ?rt s" for s by simp
  have l: "forEach_append (URL (API_BASE_URL ?rt @ ''/reservations'') []) (Object_entries ?params)
           = Inr (URL ''http://localhost:5001/reservations'' [(''date'', ''2024-01-01'')])"
    by (simp add: Object_entries_def array_index_def is_digit_def toString_def)
  have i: "ToString (JNum ''12'') = Inr ''12''" by simp
  have p: "ToString (JStr ''555-1234'') = Inr ''555-1234''" by simp
  from list_operations_abort_empty_array [OF f n, of ?params
         "URL ''http://localhost:5001/reservations'' [(''date'', ''2024-01-01'')]"
         "JNum ''12''" "''12''" "JStr ''555-1234''" "''555-1234''"] a l i p
  show ?thesis by simp
qed

section \<open>Responses\<close>

text \<open>
  Claim C3. For a response with the status 204, \<^verbatim>\<open>fetchJson\<close> resolves with \<^verbatim>\<open>null\<close>, and
  \<^verbatim>\<open>response.json()\<close> is not called: the request is the only event.
\<close>

theorem no_content_resolves_null:
  assumes "fetch rt url opts = FetchResolves resp" and "status resp = 204"
  shows "fetchJson rt url opts onCancel = ([Fetch url opts], Resolved Null)
         \<and> ReadJson \<notin> set (fst (fetchJson rt url opts onCancel))"
  using assms by (simp add: fetchJson_def)

theorem no_content_resolves_null_witness:
  "status \<lparr>status = 204, json = Inl \<lparr>name = ''SyntaxError'', message = ''Unexpected end of JSON input'',
                                     stack = ''SyntaxError: Unexpected end of JSON input''\<rparr>\<rparr> = 204
   \<and> fetchJson
        (example_runtime
           (FetchResolves
              \<lparr>status = 204, json = Inl \<lparr>name = ''SyntaxError'', message = ''Unexpected end of JSON input'',
                                         stack = ''SyntaxError: Unexpected end of JSON input''\<rparr>\<rparr>))
        (Href ''http://localhost:5001/tables/7/seat'')
        \<lparr>req_method = Some ''DELETE'', req_headers = headers, req_body = None, req_signal = None\<rparr>
        Undef
     = ([Fetch (Href ''http://localhost:5001/tables/7/seat'')
           \<lparr>req_method = Some ''DELETE'', req_headers = headers, req_body = None, req_signal = None\<rparr>],
        Resolved Null)"
proof -
  let ?resp = "\<lparr>status = 204, json = Inl \<lparr>name = ''SyntaxError'', message = ''Unexpected end of JSON input'',
                                     stack = ''SyntaxError: Unexpected end of JSON input''\<rparr>\<rparr>"
  let ?rt = "example_runtime (FetchResolves ?resp)"
  have 1: "fetch ?rt url opts = FetchResolves ?resp" for url opts by simp
  have 2: "status ?resp = 204" by simp
  from no_content_resolves_null [OF 1 2] 2 show ?thesis by simp
qed

text \<open>
  Claim C4. For a response with a status other than 204 whose body parses to an object
  with no truthy \<^verbatim>\<open>error\<close>, \<^verbatim>\<open>fetchJson\<close> resolves with the \<^verbatim>\<open>data\<close> property of that
  object, which is \<^verbatim>\<open>undefined\<close> when the object has none.
\<close>

theorem envelope_data_resolves:
  assumes "fetch rt url opts = FetchResolves resp"
      and "status resp \<noteq> 204"
      and "json resp = Inr (JObj ps)"
      and "\<not> truthy (case map_of ps ''error'' of None \<Rightarrow> Undef | Some e \<Rightarrow> e)"
  shows "fetchJson rt url opts onCancel =
         ([Fetch url opts, ReadJson],
          Resolved (case map_of ps ''data'' of None \<Rightarrow> Undef | Some d \<Rightarrow> d))"
  using assms by (simp add: fetchJson_def)

theorem envelope_data_resolves_witness:
  "fetchJson
     (example_runtime
        (FetchResolves \<lparr>status = 200, json = Inr (JObj [(''data'', JArr [JObj [(''table_id'', JNum ''1'')]])])\<rparr>))
     (Href ''http://localhost:5001/tables'')
     \<lparr>req_method = Some ''POST'', req_headers = headers, req_body = Some ''{}'', req_signal = None\<rparr>
     Undef
   = ([Fetch (Href ''http://localhost:5001/tables'')
         \<lparr>req_method = Some ''POST'', req_headers = headers, req_body = Some ''{}'', req_signal = None\<rparr>,
       ReadJson],
      Resolved (JArr [JObj [(''table_id'', JNum ''1'')]]))
   \<and> fetchJson
     (example_runtime (FetchResolves \<lparr>status = 200, json = Inr (JObj [(''error'', JStr [])])\<rparr>))
     (Href ''http://localhost:5001/tables'')
     \<lparr>req_method = Some ''POST'', req_headers = headers, req_body = Some ''{}'', req_signal = None\<rparr>
     Undef
   = ([Fetch (Href ''http://localhost:5001/tables'')
         \<lparr>req_method = Some ''POST'', req_headers = headers, req_body = Some ''{}'', req_signal = None\<rparr>,
       ReadJson],
      Resolved Undef)"
proof -
  let ?p1 = "[(''data'', JArr [JObj [(''table_id'', JNum ''1'')]])]"
  let ?p2 = "[(''error'', JStr [])]"
  let ?r1 = "\<lparr>status = 200, json = Inr (JObj ?p1)\<rparr>"
  let ?r2 = "\<lparr>status = 200, json = Inr (JObj ?p2)\<rparr>"
  have f: "fetch (example_runtime (FetchResolves r)) url opts = FetchResolves r" for r url opts by simp
  have s: "status ?r1 \<noteq> 204" "status ?r2 \<noteq> 204" by simp_all
  have j: "json ?r1 = Inr (JObj ?p1)" "json ?r2 = Inr (JObj ?p2)" by simp_all
  have e1: "\<not> truthy (case map_of ?p1 ''error'' of None \<Rightarrow> Undef | Some e \<Rightarrow> e)" by simp
  have e2: "\<not> truthy (case map_of ?p2 ''error'' of None \<Rightarrow> Undef | Some e \<Rightarrow> e)" by simp
  from envelope_data_resolves [OF f s(1) j(1) e1] envelope_data_resolves [OF f s(2) j(2) e2]
  show ?thesis by simp
qed

section \<open>Exceptions\<close>

text \<open>
  Claim C8. Whichever of the ten operations is called: when the request it issued fails
  with an exception that is not named \<^verbatim>\<open>AbortError\<close> (\<^verbatim>\<open>fetch\<close> rejects, or
  \<^verbatim>\<open>response.json()\<close> rejects, or the parsed body is \<^verbatim>\<open>null\<close> so that reading its
  \<^verbatim>\<open>error\<close> throws), the stack of the exception is logged once, after which the call
  rejects with that same exception; the request is the only one the call issues.
\<close>

theorem exception_logged_and_rethrown:
  assumes "Fetch url opts \<in> set (fst (perform rt c))"
      and "fetch rt url opts = FetchRejects error
           \<or> (\<exists>resp. fetch rt url opts = FetchResolves resp \<and> status resp \<noteq> 204
                 \<and> (json resp = Inl error
                      \<or> (\<exists>payload. json resp = Inr payload
                            \<and> get_property payload ''error'' = Inl error)))"
      and "name error \<noteq> ''AbortError''"
  shows "perform rt c = ([Fetch url opts, ConsoleError (stack error)], Rejected (Thrown error))
         \<or> perform rt c =
           ([Fetch url opts, ReadJson, ConsoleError (stack error)], Rejected (Thrown error))"
  using perform_shape [OF assms(1)] fetchJson_exception [OF assms(2,3), of Undef]
    fetchJson_exception [OF assms(2,3), of "JArr []"]
  by (cases c) auto

theorem exception_logged_and_rethrown_witness:
  "name NetworkError \<noteq> ''AbortError''
   \<and> perform (example_runtime (FetchRejects NetworkError)) (SeatTable (JNum ''7'') (JNum ''42'') None) =
     ([Fetch (Href ''http://localhost:5001/tables/7/seat'')
         \<lparr>req_method = Some ''PUT'', req_headers = headers, req_body = Some ''{}'', req_signal = None\<rparr>,
       ConsoleError ''TypeError: Failed to fetch''],
      Rejected (Thrown NetworkError))"
proof -
  let ?rt = "example_runtime (FetchRejects NetworkError)"
  let ?url = "Href ''http://localhost:5001/tables/7/seat''"
  let ?opts = "\<lparr>req_method = Some ''PUT'', req_headers = headers, req_body = Some ''{}'', req_signal = None\<rparr>"
  have 1: "Fetch ?url ?opts \<in> set (fst (perform ?rt (SeatTable (JNum ''7'') (JNum ''42'') None)))"
    by (simp add: seatTable_def fetchJson_def catch_block_def)
  have 2: "fetch ?rt ?url ?opts = FetchRejects NetworkError
           \<or> (\<exists>resp. fetch ?rt ?url ?opts = FetchResolves resp \<and> status resp \<noteq> 204
                 \<and> (json resp = Inl NetworkError
                      \<or> (\<exists>payload. json resp = Inr payload
                            \<and> get_property payload ''error'' = Inl NetworkError)))"
    by simp
  have 3: "name NetworkError \<noteq> ''AbortError''" by simp
  from exception_logged_and_rethrown [OF 1 2 3] 3 show ?thesis
    by (simp add: seatTable_def fetchJson_def catch_block_def)
qed

section \<open>Creating a reservation\<close>

text \<open>
  Claim C6. \<^verbatim>\<open>createReservation(newRes, signal)\<close> issues one request, first: a POST to
  \<^verbatim>\<open>/reservations\<close> whose body is \<^verbatim>\<open>JSON.stringify({data: newRes})\<close>. Whatever value
  \<^verbatim>\<open>fetchJson\<close> resolves with, the call resolves with the text \<^verbatim>\<open>"seated"\<close>; it rejects
  when \<^verbatim>\<open>fetchJson\<close> rejects, with the same reason.
\<close>

theorem create_reservation_seated:
  "(\<exists>tr. fst (createReservation rt newRes signal) =
          Fetch (Href (API_BASE_URL rt @ ''/reservations''))
            \<lparr>req_method = Some ''POST'', req_headers = headers,
             req_body = Some (JSON_stringify rt (JObj [(''data'', newRes)])),
             req_signal = signal\<rparr> # tr
        \<and> set tr \<subseteq> insert ReadJson (range ConsoleError))
   \<and> snd (createReservation rt newRes signal) =
       (case snd (fetchJson rt (Href (API_BASE_URL rt @ ''/reservations''))
            \<lparr>req_method = Some ''POST'', req_headers = headers,
             req_body = Some (JSON_stringify rt (JObj [(''data'', newRes)])),
             req_signal = signal\<rparr> Undef) of
          Resolved v \<Rightarrow> Resolved (JStr ''seated'')
        | Rejected r \<Rightarrow> Rejected r)"
  apply (simp add: createReservation_fst createReservation_snd)
  apply (auto simp: fetchJson_def catch_block_def split: fetch_result.splits sum.splits)
  done

section \<open>Formatting of reservations\<close>

text \<open>
  Claim C5 does not hold of the code: lines 5 and 6 import \<^verbatim>\<open>formatReservationDate\<close> and
  \<^verbatim>\<open>formatReservationTime\<close> from the same module \<^verbatim>\<open>./format-reservation-date\<close>, so the
  second \<^verbatim>\<open>then\<close> step applies the date formatter again and no time formatter is applied.
  With a formatter that marks its argument, \<^verbatim>\<open>listReservations({date: "2024-01-01"})\<close>
  answered by \<^verbatim>\<open>{data: [r]}\<close> resolves with \<^verbatim>\<open>[r]\<close> marked twice by the date formatter.
\<close>

theorem reservation_results_date_formatted_twice:
  "formatReservationTime rt = formatReservationDate rt
   \<and> perform
        (example_runtime (FetchResolves \<lparr>status = 200, json = Inr (JObj [(''data'', JArr [r])])\<rparr>))
        (ListReservations [(''date'', JStr ''2024-01-01'')] None)
     = ([Fetch (UrlObject (URL ''http://localhost:5001/reservations'' [(''date'', ''2024-01-01'')]))
          \<lparr>req_method = None, req_headers = headers, req_body = None, req_signal = None\<rparr>,
         ReadJson],
        Resolved (JArr [JStr ''date'', JArr [JStr ''date'', JArr [r]]]))"
  by (simp add: formatReservationTime_def formatReservationDate_def listReservations_def
        Object_entries_def array_index_def is_digit_def decimal_value_def
        toString_def fetchJson_def example_runtime_def new_URL_def API_BASE_URL_def)

section \<open>Query parameters\<close>

text \<open>
  Claim C7, as the code has it, for \<^verbatim>\<open>listReservations\<close>. The call appends one parameter
  for each entry of \<^verbatim>\<open>Object.entries(params)\<close>, in the order of that list, with the text
  \<^verbatim>\<open>value.toString()\<close> gives, provided that call returns for every value; when no key
  is an array index, that order is the order of the properties in \<^verbatim>\<open>params\<close>.
\<close>

theorem query_parameters_in_entries_order:
  assumes "URL_accepts rt (API_BASE_URL rt @ ''/reservations'')"
      and "\<forall>v \<in> snd ` set params. \<not> isl (toString v)"
  shows "(\<exists>tr. fst (listReservations rt params signal) =
            Fetch (UrlObject (URL (API_BASE_URL rt @ ''/reservations'')
                     (map (\<lambda>(key, v). (key, projr (toString v))) (Object_entries params))))
              \<lparr>req_method = None, req_headers = headers, req_body = None, req_signal = signal\<rparr> # tr)
         \<and> ((\<forall>key \<in> fst ` set params. array_index key = None) \<longrightarrow> Object_entries params = params)"
proof (intro conjI impI)
  from assms(2) have "\<forall>v \<in> snd ` set (Object_entries params). \<not> isl (toString v)" by simp
  from forEach_append_texts [OF this, of "API_BASE_URL rt @ ''/reservations''" "[]"] assms(1)
    fetchJson_starts_with_request
  show "\<exists>tr. fst (listReservations rt params signal) =
            Fetch (UrlObject (URL (API_BASE_URL rt @ ''/reservations'')
                     (map (\<lambda>(key, v). (key, projr (toString v))) (Object_entries params))))
              \<lparr>req_method = None, req_headers = headers, req_body = None, req_signal = signal\<rparr> # tr"
    by (simp add: listReservations_def new_URL_def)
  show "Object_entries params = params" if "\<forall>key \<in> fst ` set params. array_index key = None"
    using that by (rule Object_entries_no_index)
qed

theorem query_parameters_in_entries_order_witness:
  "fst (listReservations
          (example_runtime (FetchResolves \<lparr>status = 200, json = Inr (JObj [(''data'', JArr [])])\<rparr>))
          [(''date'', JStr ''2024-01-01''), (''people'', JNum ''1e+21'')] None)
     = [Fetch (UrlObject (URL ''http://localhost:5001/reservations''
                 [(''date'', ''2024-01-01''), (''people'', ''1e+21'')]))
          \<lparr>req_method = None, req_headers = headers, req_body = None, req_signal = None\<rparr>,
        ReadJson]
   \<and> Object_entries [(''date'', JStr ''2024-01-01''), (''people'', JNum ''1e+21'')]
     = [(''date'', JStr ''2024-01-01''), (''people'', JNum ''1e+21'')]"
proof -
  let ?rt = "example_runtime (FetchResolves \<lparr>status = 200, json = Inr (JObj [(''data'', JArr [])])\<rparr>)"
  let ?params = "[(''date'', JStr ''2024-01-01''), (''people'', JNum ''1e+21'')]"
  have 1: "URL_accepts ?rt (API_BASE_URL ?rt @ ''/reservations'')" by simp
  have 2: "\<forall>v \<in> snd ` set ?params. \<not> isl (toString v)" by (simp add: toString_def)
  have 3: "\<forall>key \<in> fst ` set ?params. array_index key = None"
    by (simp add: array_index_def is_digit_def)
  from query_parameters_in_entries_order [OF 1 2, where signal = None] 3
  have "Object_entries ?params = ?params" by blast
  moreover have "fst (listReservations ?rt ?params None)
     = [Fetch (UrlObject (URL ''http://localhost:5001/reservations''
                 [(''date'', ''2024-01-01''), (''people'', ''1e+21'')]))
          \<lparr>req_method = None, req_headers = headers, req_body = None, req_signal = None\<rparr>,
        ReadJson]"
    by (simp add: listReservations_def calculation toString_def fetchJson_def)
  ultimately show ?thesis by simp
qed

text \<open>
  Claim C7 as it is written fails in three ways. A key that is an array index comes
  first whatever the order of the properties: \<^verbatim>\<open>listReservations({b: "x", 1: "y"})\<close>
  requests \<^verbatim>\<open>?1=y&b=x\<close>. A value without a \<^verbatim>\<open>toString\<close> method ends the call before any
  request: \<^verbatim>\<open>listReservations({date: null})\<close> rejects with a \<^verbatim>\<open>TypeError\<close>. And
  \<^verbatim>\<open>searchReservationsByPhone\<close> appends no parameter: line 173 writes the number into the
  text of the URL, so that \<^verbatim>\<open>searchReservationsByPhone("555&date=2024-01-01")\<close> requests
  \<^verbatim>\<open>?mobile_number=555&date=2024-01-01\<close>, two parameters of which neither has the number
  as its value.
\<close>

theorem query_parameters_counterexample:
  "fst (listReservations
          (example_runtime (FetchResolves \<lparr>status = 200, json = Inr (JObj [(''data'', JArr [])])\<rparr>))
          [(''b'', JStr ''x''), (''1'', JStr ''y'')] None)
     = [Fetch (UrlObject (URL ''http://localhost:5001/reservations'' [(''1'', ''y''), (''b'', ''x'')]))
          \<lparr>req_method = None, req_headers = headers, req_body = None, req_signal = None\<rparr>,
        ReadJson]
   \<and> listReservations
          (example_runtime (FetchResolves \<lparr>status = 200, json = Inr (JObj [(''data'', JArr [])])\<rparr>))
          [(''date'', Null)] None
     = ([], Rejected (Thrown (TypeError ''Cannot read properties of null (reading toString)'')))
   \<and> fst (searchReservationsByPhone
          (example_runtime (FetchResolves \<lparr>status = 200, json = Inr (JObj [(''data'', JArr [])])\<rparr>))
          (JStr ''555&date=2024-01-01'') None)
     = [Fetch (UrlObject (URL ''http://localhost:5001/reservations?mobile_number=555&date=2024-01-01'' []))
          \<lparr>req_method = None, req_headers = headers, req_body = None, req_signal = None\<rparr>,
        ReadJson]"
  by (simp add: listReservations_def searchReservationsByPhone_def Object_entries_def
        array_index_def is_digit_def decimal_value_def toString_def fetchJson_def throws_def)

end
